theory Spec2Isabelle
  imports Complex_Main
begin

section \<open>Numbers and vectors\<close>

text \<open>
  The game logic of HyperNova is written in TypeScript on top of three.js. Every
  TypeScript \<^verbatim>\<open>number\<close> is modelled as a \<^typ>\<open>real\<close>. In the storm, the weapon and
  the movement of the player arithmetic is exact: there is no rounding, no overflow to
  \<^verbatim>\<open>Infinity\<close> and no \<^verbatim>\<open>NaN\<close>. The one place where the source can divide by
  zero (the shrink step of the storm, reached only when the configured shrink duration
  is zero) is pointed out at the definition. In \<^verbatim>\<open>toggleCrouch\<close>, whose property is an
  exact equality of positions, every arithmetic result is rounded to an IEEE 754 double
  as JavaScript does (section "IEEE doubles").

  The fields of the three.js vectors are named \<open>v2x\<close>, \<open>v2y\<close> and \<open>v3x\<close>, \<open>v3y\<close>,
  \<open>v3z\<close> so that the letters \<open>x\<close>, \<open>y\<close>, \<open>z\<close> stay available as variables.
\<close>

record Vector2 =
  v2x :: real
  v2y :: real

record Vector3 =
  v3x :: real
  v3y :: real
  v3z :: real

definition vec2 :: "real \<Rightarrow> real \<Rightarrow> Vector2" where
  "vec2 a b = \<lparr>v2x = a, v2y = b\<rparr>"

definition vec3 :: "real \<Rightarrow> real \<Rightarrow> real \<Rightarrow> Vector3" where
  "vec3 a b c = \<lparr>v3x = a, v3y = b, v3z = c\<rparr>"

text \<open>
  \<^verbatim>\<open>Vector2.distanceTo\<close> of three.js: the Euclidean distance, the square root of
  \<^verbatim>\<open>distanceToSquared\<close>.
\<close>

definition distanceToSquared :: "Vector2 \<Rightarrow> Vector2 \<Rightarrow> real" where
  "distanceToSquared a b =
     (let dx = v2x a - v2x b; dy = v2y a - v2y b in dx * dx + dy * dy)"

definition distanceTo :: "Vector2 \<Rightarrow> Vector2 \<Rightarrow> real" where
  "distanceTo a b = sqrt (distanceToSquared a b)"


section \<open>IEEE doubles\<close>

text \<open>
  A JavaScript number is a binary64 value. A finite double is a real of the form
  \<open>m \<cdot> 2\<^sup>e\<^sup>-\<^sup>5\<^sup>2\<close> with an integer \<open>m\<close>, \<open>\<bar>m\<bar> < 2\<^sup>5\<^sup>3\<close> and \<open>- 1022 \<le> e \<le> 1023\<close>; the
  result of an arithmetic operation is the exact result rounded to the nearest double,
  a tie going to the even \<open>m\<close>.

  \<open>double_exponent x\<close> is the exponent \<open>e\<close> of the binade of \<open>x\<close>: the least \<open>e\<close> from
  \<open>- 1022\<close> on with \<open>\<bar>x\<bar> < 2\<^sup>e\<^sup>+\<^sup>1\<close>, so that the subnormal numbers share the spacing
  \<open>2\<^sup>-\<^sup>1\<^sup>0\<^sup>7\<^sup>4\<close> of the lowest binade. A result of magnitude \<open>2\<^sup>1\<^sup>0\<^sup>2\<^sup>4\<close> or more is
  \<^verbatim>\<open>Infinity\<close> in JavaScript and is not modelled: \<open>finite_double\<close> says that a number
  is a double below that bound.
\<close>

definition round_half_even :: "real \<Rightarrow> int" where
  "round_half_even x =
     (let f = \<lfloor>x\<rfloor>; r = x - of_int f
      in if r < 1 / 2 then f else if r > 1 / 2 then f + 1 else if even f then f else f + 1)"

definition double_exponent :: "real \<Rightarrow> int" where
  "double_exponent x =
     (case find (\<lambda>e. \<bar>x\<bar> < 2 powi (e + 1)) [- 1022..1023] of
        Some e \<Rightarrow> e
      | None \<Rightarrow> 1024)"

definition round_double :: "real \<Rightarrow> real" where
  "round_double x =
     (let u = 2 powi (double_exponent x - 52)
      in of_int (round_half_even (x / u)) * u)"

definition finite_double :: "real \<Rightarrow> bool" where
  "finite_double x \<longleftrightarrow> \<bar>x\<bar> < 2 powi 1024 \<and> round_double x = x"

text \<open>The operators \<^verbatim>\<open>+\<close>, \<^verbatim>\<open>-\<close>, \<^verbatim>\<open>*\<close> and \<^verbatim>\<open>/\<close> of JavaScript on doubles.\<close>

definition js_add :: "real \<Rightarrow> real \<Rightarrow> real" where
  "js_add a b = round_double (a + b)"

definition js_sub :: "real \<Rightarrow> real \<Rightarrow> real" where
  "js_sub a b = round_double (a - b)"

definition js_mul :: "real \<Rightarrow> real \<Rightarrow> real" where
  "js_mul a b = round_double (a * b)"

definition js_div :: "real \<Rightarrow> real \<Rightarrow> real" where
  "js_div a b = round_double (a / b)"


section \<open>The storm (src/game/Storm.ts)\<close>

datatype Phase = Paused | Shrinking

record StormConfig =
  initialRadius :: real
  finalRadius :: real
  shrinkDuration :: real
  pauseDuration :: real
  damage :: real
  color :: nat

text \<open>
  The state of a \<^verbatim>\<open>Storm\<close>. Of the mesh only what \<^verbatim>\<open>update\<close> writes is kept: the
  shader uniforms \<^verbatim>\<open>time\<close> and \<^verbatim>\<open>radius\<close> and the scale of the mesh.
\<close>

record Storm =
  radius :: real
  targetRadius :: real
  center :: Vector2
  config :: StormConfig
  phase :: Phase
  timeRemaining :: real
  nextPhaseTime :: real
  uniform_time :: real
  uniform_radius :: real
  mesh_scale :: Vector3

text \<open>The constructor: the configuration is a literal of the source.\<close>

definition Storm_config :: StormConfig where
  "Storm_config =
     \<lparr>initialRadius = 200, finalRadius = 20, shrinkDuration = 60, pauseDuration = 30,
      damage = 2, color = 65535\<rparr>"

definition Storm_new :: Storm where
  "Storm_new =
     \<lparr>radius = initialRadius Storm_config,
      targetRadius = initialRadius Storm_config,
      center = vec2 0 0,
      config = Storm_config,
      phase = Paused,
      timeRemaining = pauseDuration Storm_config,
      nextPhaseTime = pauseDuration Storm_config,
      uniform_time = 0,
      uniform_radius = initialRadius Storm_config,
      mesh_scale = vec3 1 1 1\<rparr>"

text \<open>
  \<^verbatim>\<open>Storm.update(delta, playerPosition)\<close>, in the order of the source: the shader time,
  the phase timer, the phase switch, the shrink step, the damage. The result is the new
  state and the returned damage.

  In the shrink step the source divides by \<^verbatim>\<open>this.timeRemaining\<close>. In the shrinking
  phase that timer is either still positive after the decrement or has just been reset
  to \<^verbatim>\<open>shrinkDuration\<close>, so the divisor is zero only when \<^verbatim>\<open>shrinkDuration\<close> is zero;
  there JavaScript yields a non-finite number and HOL yields 0. The theorems on the
  radius assume a positive shrink duration.
\<close>

definition Storm_tick :: "Storm \<Rightarrow> real \<Rightarrow> Storm" where
  "Storm_tick s delta =
     (let s1 = s\<lparr>uniform_time := uniform_time s + delta\<rparr>;
          s2 = s1\<lparr>timeRemaining := timeRemaining s1 - delta\<rparr>;
          s3 = (if timeRemaining s2 \<le> 0 then
                  (if phase s2 = Paused then
                     s2\<lparr>phase := Shrinking,
                        timeRemaining := shrinkDuration (config s2),
                        nextPhaseTime := shrinkDuration (config s2),
                        targetRadius := max (radius s2 * (7 / 10)) (finalRadius (config s2))\<rparr>
                   else
                     s2\<lparr>phase := Paused,
                        timeRemaining := pauseDuration (config s2),
                        nextPhaseTime := pauseDuration (config s2)\<rparr>)
                else s2)
      in if phase s3 = Shrinking then
           (let shrinkAmount = delta * ((radius s3 - targetRadius s3) / timeRemaining s3);
                r = max (radius s3 - shrinkAmount) (targetRadius s3);
                scale = r / initialRadius (config s3)
            in s3\<lparr>radius := r, mesh_scale := vec3 scale 1 scale, uniform_radius := r\<rparr>)
         else s3)"

definition Storm_update :: "Storm \<Rightarrow> real \<Rightarrow> Vector3 \<Rightarrow> Storm \<times> real" where
  "Storm_update s delta playerPosition =
     (let s' = Storm_tick s delta;
          distanceFromCenter =
            distanceTo (vec2 (v3x playerPosition) (v3z playerPosition)) (center s');
          isOutsideStorm = distanceFromCenter > radius s'
      in (s', if isOutsideStorm then damage (config s') * delta else 0))"

text \<open>
  A sequence of \<^verbatim>\<open>update\<close> calls, each with its delta and actor position; the result
  lists the state after every call.
\<close>

fun Storm_run :: "Storm \<Rightarrow> (real \<times> Vector3) list \<Rightarrow> Storm list" where
  "Storm_run s [] = []"
| "Storm_run s (c # cs) =
     (let s' = fst (Storm_update s (fst c) (snd c)) in s' # Storm_run s' cs)"

text \<open>
  The invariant of the storm: a positive shrink duration and
  \<open>0 \<le> finalRadius \<le> targetRadius \<le> radius\<close>.
\<close>

definition storm_inv :: "Storm \<Rightarrow> bool" where
  "storm_inv s \<longleftrightarrow>
     0 < shrinkDuration (config s) \<and> 0 \<le> finalRadius (config s) \<and>
     finalRadius (config s) \<le> targetRadius s \<and> targetRadius s \<le> radius s"


section \<open>The weapon (src/game/Weapon.ts)\<close>

text \<open>
  The configuration of a weapon. The source's fields \<^verbatim>\<open>damage\<close>, \<^verbatim>\<open>ammo\<close> and
  \<^verbatim>\<open>reserveAmmo\<close> are named \<open>weapon_damage\<close>, \<open>config_ammo\<close> and
  \<open>config_reserveAmmo\<close> here, apart from the storm's \<open>damage\<close> and from the weapon's own
  counters.
\<close>

record WeaponConfig =
  name :: string
  weapon_damage :: real
  fireRate :: real
  config_ammo :: real
  maxAmmo :: real
  config_reserveAmmo :: real
  maxReserveAmmo :: real
  reloadTime :: real
  modelPath :: string
  muzzleFlashPosition :: Vector3
  isAutomatic :: bool

text \<open>
  The state of a \<^verbatim>\<open>Weapon\<close>. The three scene objects are kept as their \<^verbatim>\<open>visible\<close>
  flag: \<open>None\<close> is the source's \<^verbatim>\<open>null\<close>, \<open>Some v\<close> an object with \<^verbatim>\<open>visible = v\<close>.
  \<open>lastShotTime\<close> is the one timer of the source, shared by the cooldown, the reload
  and the muzzle flash.
\<close>

record Weapon =
  weapon_config :: WeaponConfig
  model :: "bool option"
  ammo :: real
  reserveAmmo :: real
  isReloading :: bool
  lastShotTime :: real
  shootingInterval :: real
  muzzleFlash :: "bool option"
  muzzleFlashMesh :: "bool option"

text \<open>
  The constructor. \<^verbatim>\<open>1 / config.fireRate\<close> is \<^verbatim>\<open>Infinity\<close> in JavaScript for a fire rate
  of zero and 0 in HOL; the theorems on the cooldown fix the interval to a positive value.
\<close>

definition Weapon_new :: "WeaponConfig \<Rightarrow> Weapon" where
  "Weapon_new c =
     \<lparr>weapon_config = c,
      model = None,
      ammo = config_ammo c,
      reserveAmmo = config_reserveAmmo c,
      isReloading = False,
      lastShotTime = 0,
      shootingInterval = 1 / fireRate c,
      muzzleFlash = None,
      muzzleFlashMesh = None\<rparr>"

definition Weapon_show :: "Weapon \<Rightarrow> Weapon" where
  "Weapon_show w = (case model w of None \<Rightarrow> w | Some v \<Rightarrow> w\<lparr>model := Some True\<rparr>)"

definition Weapon_hide :: "Weapon \<Rightarrow> Weapon" where
  "Weapon_hide w = (case model w of None \<Rightarrow> w | Some v \<Rightarrow> w\<lparr>model := Some False\<rparr>)"

text \<open>
  \<^verbatim>\<open>init\<close>: \<open>loaded\<close> says whether the asset loader delivers a model. With a model the
  weapon is hidden and gets its muzzle flash (light and mesh, both invisible); a
  failed load is caught and leaves the weapon as it is.
\<close>

definition Weapon_init :: "Weapon \<Rightarrow> bool \<Rightarrow> Weapon" where
  "Weapon_init w loaded =
     (if loaded then
        (Weapon_hide (w\<lparr>model := Some True\<rparr>))\<lparr>muzzleFlash := Some False, muzzleFlashMesh := Some False\<rparr>
      else w)"

definition Weapon_completeReload :: "Weapon \<Rightarrow> Weapon" where
  "Weapon_completeReload w =
     (let ammoNeeded = maxAmmo (weapon_config w) - ammo w;
          ammoToAdd = min ammoNeeded (reserveAmmo w)
      in w\<lparr>ammo := ammo w + ammoToAdd,
            reserveAmmo := reserveAmmo w - ammoToAdd,
            isReloading := False\<rparr>)"

definition Weapon_update :: "Weapon \<Rightarrow> real \<Rightarrow> Weapon" where
  "Weapon_update w delta =
     (let w1 = (if isReloading w then
                  (let w' = w\<lparr>lastShotTime := lastShotTime w + delta\<rparr>
                   in if lastShotTime w' \<ge> reloadTime (weapon_config w')
                      then Weapon_completeReload w' else w')
                else w)
      in if muzzleFlash w1 = Some True then
           (let w' = w1\<lparr>lastShotTime := lastShotTime w1 + delta\<rparr>
            in if lastShotTime w' > 5 / 100 then
                 w'\<lparr>muzzleFlash := Some False,
                    muzzleFlashMesh := map_option (\<lambda>v. False) (muzzleFlashMesh w')\<rparr>
               else w')
         else w1)"

definition Weapon_reload :: "Weapon \<Rightarrow> Weapon" where
  "Weapon_reload w =
     (if isReloading w \<or> ammo w = maxAmmo (weapon_config w) \<or> reserveAmmo w \<le> 0 then w
      else w\<lparr>isReloading := True, lastShotTime := 0\<rparr>)"

text \<open>
  \<^verbatim>\<open>shoot\<close>. \<open>now\<close> is the reading \<^verbatim>\<open>performance.now() / 1000\<close> of the clock at the
  call. The two guards come in the order of the source: first reloading or empty (an
  empty weapon calls \<^verbatim>\<open>reload\<close>), then the cooldown. \<open>Weapon_fires\<close> says that both
  guards are passed.
\<close>

definition Weapon_fires :: "Weapon \<Rightarrow> real \<Rightarrow> bool" where
  "Weapon_fires w now \<longleftrightarrow>
     \<not> (isReloading w \<or> ammo w \<le> 0) \<and> \<not> (now - lastShotTime w < shootingInterval w)"

definition Weapon_shoot :: "Weapon \<Rightarrow> real \<Rightarrow> Weapon" where
  "Weapon_shoot w now =
     (if isReloading w \<or> ammo w \<le> 0 then
        (if ammo w \<le> 0 then Weapon_reload w else w)
      else if now - lastShotTime w < shootingInterval w then w
      else
        (let w1 = w\<lparr>lastShotTime := now\<rparr>;
             w2 = w1\<lparr>ammo := ammo w1 - 1\<rparr>
         in case muzzleFlash w2 of
              None \<Rightarrow> w2
            | Some v \<Rightarrow> w2\<lparr>muzzleFlash := Some True,
                            muzzleFlashMesh := map_option (\<lambda>v. True) (muzzleFlashMesh w2)\<rparr>))"

text \<open>
  The hitscan of a fired shot touches the scene only, never the weapon: the first
  intersection of the ray with the scene (if any) is an enemy, which receives the
  configured damage, or something else, which gets an impact effect.
\<close>

datatype Target = Enemy | Scenery

datatype ShotEffect = NotFired | NoHit | EnemyDamaged real | ImpactEffect

definition Weapon_shoot_effect :: "Weapon \<Rightarrow> real \<Rightarrow> Target option \<Rightarrow> ShotEffect" where
  "Weapon_shoot_effect w now hit =
     (if \<not> Weapon_fires w now then NotFired
      else case hit of
             None \<Rightarrow> NoHit
           | Some Enemy \<Rightarrow> EnemyDamaged (weapon_damage (weapon_config w))
           | Some Scenery \<Rightarrow> ImpactEffect)"

definition Weapon_addAmmo :: "Weapon \<Rightarrow> real \<Rightarrow> Weapon" where
  "Weapon_addAmmo w amount =
     w\<lparr>reserveAmmo := min (maxReserveAmmo (weapon_config w)) (reserveAmmo w + amount)\<rparr>"

text \<open>The three weapons that \<^verbatim>\<open>Player.initWeapons\<close> constructs.\<close>

definition assaultRifle_config :: WeaponConfig where
  "assaultRifle_config =
     \<lparr>name = ''Assault Rifle'', weapon_damage = 20, fireRate = 10, config_ammo = 30,
      maxAmmo = 30, config_reserveAmmo = 120, maxReserveAmmo = 240, reloadTime = 2,
      modelPath = ''/models/weapons/assault_rifle.glb'',
      muzzleFlashPosition = vec3 0 0 (- 1), isAutomatic = True\<rparr>"

definition shotgun_config :: WeaponConfig where
  "shotgun_config =
     \<lparr>name = ''Shotgun'', weapon_damage = 80, fireRate = 1, config_ammo = 8,
      maxAmmo = 8, config_reserveAmmo = 32, maxReserveAmmo = 64, reloadTime = 3,
      modelPath = ''/models/weapons/shotgun.glb'',
      muzzleFlashPosition = vec3 0 0 (- (12 / 10)), isAutomatic = False\<rparr>"

definition pistol_config :: WeaponConfig where
  "pistol_config =
     \<lparr>name = ''Pistol'', weapon_damage = 15, fireRate = 3, config_ammo = 12,
      maxAmmo = 12, config_reserveAmmo = 48, maxReserveAmmo = 96, reloadTime = 3 / 2,
      modelPath = ''/models/weapons/pistol.glb'',
      muzzleFlashPosition = vec3 0 0 (- (8 / 10)), isAutomatic = False\<rparr>"


section \<open>The player (src/game/Player.ts)\<close>

text \<open>
  What the player reads from the rest of the game is passed in:
  \<^item> the world is the answer of the raycaster, \<^verbatim>\<open>raycaster.set(origin, direction)\<close>
    followed by \<^verbatim>\<open>intersectObjects(world.getCollidableObjects())\<close>: the
    intersections, nearest first, each with its distance and the \<^verbatim>\<open>isClimbable\<close> tag
    of the object hit;
  \<^item> of the camera, which the pointer-lock controls turn, the image of \<open>(0, 0, 1)\<close> under
    \<^verbatim>\<open>camera.quaternion\<close> and the first column of \<^verbatim>\<open>camera.matrix\<close>.
  \<open>controls_position\<close> is \<^verbatim>\<open>this.controls.getObject().position\<close>, the position every
  method works on; the field \<^verbatim>\<open>this.position\<close> is only copied into it by the
  constructor.
\<close>

datatype error = TypeError

record Intersection =
  distance :: real
  isClimbable :: bool

type_synonym World = "Vector3 \<Rightarrow> Vector3 \<Rightarrow> Intersection list"

record Camera =
  quaternion_z :: Vector3
  matrix_column0 :: Vector3

record Player =
  moveForward :: bool
  moveBackward :: bool
  moveLeft :: bool
  moveRight :: bool
  sprint :: bool
  velocity :: Vector3
  direction :: Vector3
  position :: Vector3
  controls_position :: Vector3
  gravity :: real
  jumpVelocity :: real
  walkSpeed :: real
  sprintSpeed :: real
  isCrouching :: bool
  isJumping :: bool
  standingHeight :: real
  crouchingHeight :: real
  health :: real
  maxHealth :: real
  armor :: real
  maxArmor :: real
  weapons :: "Weapon list"
  currentWeaponIndex :: real
  camera :: Camera
  collisionDistance :: real
  playerRadius :: real
  isClimbing :: bool
  climbSpeed :: real

definition Player_new :: "Camera \<Rightarrow> Player" where
  "Player_new cam =
     \<lparr>moveForward = False, moveBackward = False, moveLeft = False, moveRight = False,
      sprint = False,
      velocity = vec3 0 0 0,
      direction = vec3 0 0 0,
      position = vec3 30 2 30,
      controls_position = vec3 30 2 30,
      gravity = 98 / 10,
      jumpVelocity = 5,
      walkSpeed = 5,
      sprintSpeed = 10,
      isCrouching = False,
      isJumping = False,
      standingHeight = 2,
      crouchingHeight = 1,
      health = 100,
      maxHealth = 100,
      armor = 0,
      maxArmor = 100,
      weapons = [],
      currentWeaponIndex = 0,
      camera = cam,
      collisionDistance = 1,
      playerRadius = 1 / 2,
      isClimbing = False,
      climbSpeed = 3\<rparr>"

text \<open>
  \<^verbatim>\<open>this.weapons[i]\<close>: a JavaScript array answers \<^verbatim>\<open>undefined\<close> for an index that
  is negative, fractional or beyond the end; calling a method on that raises a
  \<^verbatim>\<open>TypeError\<close>.
\<close>

definition weapon_at :: "Weapon list \<Rightarrow> real \<Rightarrow> Weapon option" where
  "weapon_at ws i =
     (if 0 \<le> i \<and> i < real (length ws) \<and> real_of_int \<lfloor>i\<rfloor> = i
      then Some (ws ! nat \<lfloor>i\<rfloor>) else None)"

definition on_weapon :: "Player \<Rightarrow> real \<Rightarrow> (Weapon \<Rightarrow> Weapon) \<Rightarrow> error + Player" where
  "on_weapon p i f =
     (case weapon_at (weapons p) i of
        None \<Rightarrow> Inl TypeError
      | Some w \<Rightarrow> Inr (p\<lparr>weapons := (weapons p)[nat \<lfloor>i\<rfloor> := f w]\<rparr>))"

text \<open>
  \<^verbatim>\<open>Vector3.normalize\<close> of three.js divides by the length, or by 1 when the length
  is 0.
\<close>

definition Vector3_length :: "Vector3 \<Rightarrow> real" where
  "Vector3_length v = sqrt (v3x v * v3x v + v3y v * v3y v + v3z v * v3z v)"

definition Vector3_normalize :: "Vector3 \<Rightarrow> Vector3" where
  "Vector3_normalize v =
     (let l = Vector3_length v; d = (if l = 0 then 1 else l)
      in vec3 (v3x v / d) (v3y v / d) (v3z v / d))"

definition addScaledVector :: "Vector3 \<Rightarrow> Vector3 \<Rightarrow> real \<Rightarrow> Vector3" where
  "addScaledVector a v k = vec3 (v3x a + v3x v * k) (v3y a + v3y v * k) (v3z a + v3z v * k)"

text \<open>
  \<^verbatim>\<open>PointerLockControls.moveRight\<close> moves the position along the first column of the
  camera matrix, \<^verbatim>\<open>moveForward\<close> along the cross product of \<^verbatim>\<open>camera.up\<close>, which is
  \<open>(0, 1, 0)\<close>, with that column.
\<close>

definition controls_moveRight :: "Player \<Rightarrow> real \<Rightarrow> Player" where
  "controls_moveRight p d =
     p\<lparr>controls_position :=
         addScaledVector (controls_position p) (matrix_column0 (camera p)) d\<rparr>"

definition controls_moveForward :: "Player \<Rightarrow> real \<Rightarrow> Player" where
  "controls_moveForward p d =
     (let c = matrix_column0 (camera p)
      in p\<lparr>controls_position :=
            addScaledVector (controls_position p) (vec3 (v3z c) 0 (- v3x c)) d\<rparr>)"

definition stanceHeight :: "Player \<Rightarrow> real" where
  "stanceHeight p = (if isCrouching p then crouchingHeight p else standingHeight p)"

definition isOnGround :: "Player \<Rightarrow> bool" where
  "isOnGround p \<longleftrightarrow> v3y (controls_position p) \<le> stanceHeight p / 2"

text \<open>
  \<^verbatim>\<open>checkClimbing\<close>. The snap to the ladder sits under \<^verbatim>\<open>if (!this.isClimbing)\<close>
  directly after \<^verbatim>\<open>this.isClimbing = true\<close> and is never run, so it has no part in
  the model.
\<close>

definition checkClimbing :: "Player \<Rightarrow> World \<Rightarrow> Player" where
  "checkClimbing p world =
     (let forward = Vector3_normalize ((quaternion_z (camera p))\<lparr>v3y := 0\<rparr>);
          intersects = world (controls_position p) forward;
          canClimb = (\<exists>i \<in> set intersects. distance i < 15 / 10 \<and> isClimbable i);
          p1 = (if canClimb \<and> moveForward p then p\<lparr>isClimbing := True\<rparr>
                else p\<lparr>isClimbing := False\<rparr>)
      in if isClimbing p1 then
           p1\<lparr>velocity := (velocity p1)\<lparr>v3y :=
                 (if moveForward p1 then climbSpeed p1
                  else if moveBackward p1 then - climbSpeed p1 else 0)\<rparr>\<rparr>
         else p1)"

text \<open>
  \<^verbatim>\<open>checkCollisions\<close>: the four directions in the order of the source, each one
  possibly zeroing a component of the intended velocity \<open>(velocityX, velocityZ)\<close>.
\<close>

definition collision_directions :: "Vector3 list" where
  "collision_directions = [vec3 1 0 0, vec3 (- 1) 0 0, vec3 0 0 1, vec3 0 0 (- 1)]"

definition collide :: "Player \<Rightarrow> World \<Rightarrow> Vector3 \<Rightarrow> real \<times> real \<Rightarrow> Vector3 \<Rightarrow> real \<times> real" where
  "collide p world pos v dir =
     (case world pos dir of
        [] \<Rightarrow> v
      | i # rest \<Rightarrow>
          if distance i < playerRadius p + collisionDistance p then
            (let dot = v3x dir * fst v + v3y dir * 0 + v3z dir * snd v
             in if dot > 0 then
                  (if \<bar>v3x dir\<bar> > 0 then 0 else fst v, if \<bar>v3z dir\<bar> > 0 then 0 else snd v)
                else v)
          else v)"

definition checkCollisions :: "Player \<Rightarrow> World \<Rightarrow> Vector3 \<Rightarrow> real \<Rightarrow> real \<Rightarrow> real \<times> real" where
  "checkCollisions p world pos velocityX velocityZ =
     foldl (collide p world pos) (velocityX, velocityZ) collision_directions"

text \<open>
  \<^verbatim>\<open>update\<close>, block by block in the order of the source. \<open>update_gravity\<close> is the
  block "apply gravity only when not climbing", \<open>update_direction\<close> the block
  "calculate movement direction", \<open>update_climb\<close> the climbing movement inside
  \<^verbatim>\<open>if (this.moveForward || this.moveBackward)\<close>, \<open>update_lateral\<close> the intended
  velocities and the collision check. \<open>Player_update_velocity\<close> is the source up to and
  including the collision check: its \<open>velocity\<close> is the one the position is then moved by.
\<close>

definition update_gravity :: "Player \<Rightarrow> real \<Rightarrow> Player" where
  "update_gravity p delta =
     (if \<not> isClimbing p then
        (if \<not> isOnGround p then
           p\<lparr>velocity := (velocity p)\<lparr>v3y := v3y (velocity p) - gravity p * delta\<rparr>\<rparr>
         else if v3y (velocity p) < 0 then
           p\<lparr>velocity := (velocity p)\<lparr>v3y := - (1 / 10)\<rparr>, isJumping := False\<rparr>
         else p)
      else p)"

definition update_direction :: "Player \<Rightarrow> Player" where
  "update_direction p =
     p\<lparr>direction := Vector3_normalize ((direction p)
          \<lparr>v3z := of_bool (moveBackward p) - of_bool (moveForward p),
           v3x := of_bool (moveLeft p) - of_bool (moveRight p)\<rparr>)\<rparr>"

definition update_climb :: "Player \<Rightarrow> Player" where
  "update_climb p =
     (if moveForward p \<or> moveBackward p then
        (if isClimbing p \<and> moveForward p then
           p\<lparr>velocity := (velocity p)\<lparr>v3y := climbSpeed p\<rparr>\<rparr>
         else if isClimbing p then
           p\<lparr>velocity := (velocity p)\<lparr>v3y := 0\<rparr>\<rparr>
         else p)
      else p)"

definition update_lateral :: "Player \<Rightarrow> World \<Rightarrow> Player" where
  "update_lateral p world =
     (let speed = (if sprint p then sprintSpeed p else walkSpeed p);
          actualSpeed = (if isCrouching p then speed * (1 / 2) else speed);
          intendedVelocityZ =
            (if moveForward p \<or> moveBackward p then - v3z (direction p) * actualSpeed else 0);
          intendedVelocityX =
            (if moveLeft p \<or> moveRight p then - v3x (direction p) * actualSpeed else 0);
          collisionResults =
            checkCollisions p world (controls_position p) intendedVelocityX intendedVelocityZ
      in p\<lparr>velocity := (velocity p)\<lparr>v3x := fst collisionResults, v3z := snd collisionResults\<rparr>\<rparr>)"

definition Player_update_velocity :: "Player \<Rightarrow> real \<Rightarrow> World \<Rightarrow> Player" where
  "Player_update_velocity p delta world =
     update_lateral
       (update_climb (update_direction (update_gravity (checkClimbing p world) delta))) world"

definition Player_update_position :: "Player \<Rightarrow> real \<Rightarrow> Player" where
  "Player_update_position p delta =
     (let p1 = p\<lparr>controls_position := (controls_position p)
                  \<lparr>v3y := v3y (controls_position p) + v3y (velocity p) * delta\<rparr>\<rparr>;
          p2 = controls_moveRight p1 (v3x (velocity p1) * delta);
          p3 = controls_moveForward p2 (v3z (velocity p2) * delta)
      in if v3y (controls_position p3) < stanceHeight p3 / 2 then
           p3\<lparr>controls_position := (controls_position p3)\<lparr>v3y := stanceHeight p3 / 2\<rparr>,
              velocity := (velocity p3)\<lparr>v3y := 0\<rparr>\<rparr>
         else p3)"

definition Player_update :: "Player \<Rightarrow> real \<Rightarrow> World \<Rightarrow> error + Player" where
  "Player_update p delta world =
     (let p1 = Player_update_position (Player_update_velocity p delta world) delta
      in if length (weapons p1) > 0 \<and> currentWeaponIndex p1 \<ge> 0 then
           on_weapon p1 (currentWeaponIndex p1) (\<lambda>w. Weapon_update w delta)
         else Inr p1)"

definition Player_jump :: "Player \<Rightarrow> Player" where
  "Player_jump p = p\<lparr>velocity := (velocity p)\<lparr>v3y := jumpVelocity p\<rparr>\<rparr>"

text \<open>
  \<^verbatim>\<open>toggleCrouch\<close>, with the subtraction, the division and the two updates of the
  position rounded to doubles.
\<close>

definition Player_toggleCrouch :: "Player \<Rightarrow> Player" where
  "Player_toggleCrouch p =
     (let p1 = p\<lparr>isCrouching := \<not> isCrouching p\<rparr>;
          heightDifference = js_sub (standingHeight p1) (crouchingHeight p1)
      in if isCrouching p1 then
           p1\<lparr>controls_position := (controls_position p1)
                \<lparr>v3y := js_sub (v3y (controls_position p1)) (js_div heightDifference 2)\<rparr>\<rparr>
         else
           p1\<lparr>controls_position := (controls_position p1)
                \<lparr>v3y := js_add (v3y (controls_position p1)) (js_div heightDifference 2)\<rparr>\<rparr>)"

text \<open>
  The exact value, before rounding, of the position that the next \<^verbatim>\<open>toggleCrouch\<close>
  computes: a standing player goes down by half the height difference, a crouching one
  goes up.
\<close>

definition crouch_first_sum :: "Player \<Rightarrow> real" where
  "crouch_first_sum p =
     (let h = js_div (js_sub (standingHeight p) (crouchingHeight p)) 2;
          y = v3y (controls_position p)
      in if isCrouching p then y + h else y - h)"

definition Player_shoot :: "Player \<Rightarrow> real \<Rightarrow> error + Player" where
  "Player_shoot p now =
     (if length (weapons p) > 0 \<and> currentWeaponIndex p \<ge> 0 then
        on_weapon p (currentWeaponIndex p) (\<lambda>w. Weapon_shoot w now)
      else Inr p)"

definition Player_switchWeapon :: "Player \<Rightarrow> real \<Rightarrow> error + Player" where
  "Player_switchWeapon p index =
     (if index \<ge> 0 \<and> index < real (length (weapons p)) then
        (case (if currentWeaponIndex p \<ge> 0 \<and> currentWeaponIndex p < real (length (weapons p))
               then on_weapon p (currentWeaponIndex p) Weapon_hide else Inr p) of
           Inl e \<Rightarrow> Inl e
         | Inr p1 \<Rightarrow> on_weapon (p1\<lparr>currentWeaponIndex := index\<rparr>) index Weapon_show)
      else Inr p)"

text \<open>
  \<^verbatim>\<open>initWeapons\<close>: \<open>loaded\<close> says for each model path whether the asset loader
  delivers the model.
\<close>

definition Player_initWeapons :: "Player \<Rightarrow> (string \<Rightarrow> bool) \<Rightarrow> error + Player" where
  "Player_initWeapons p loaded =
     (let ws = weapons p @
                 [Weapon_new assaultRifle_config, Weapon_new shotgun_config,
                  Weapon_new pistol_config]
      in Player_switchWeapon
           (p\<lparr>weapons := map (\<lambda>w. Weapon_init w (loaded (modelPath (weapon_config w)))) ws\<rparr>) 0)"

definition Player_takeDamage :: "Player \<Rightarrow> real \<Rightarrow> Player" where
  "Player_takeDamage p amount =
     (if armor p > 0 then
        (let armorDamage = min (armor p) (amount * (1 / 2));
             p1 = p\<lparr>armor := armor p - armorDamage\<rparr>;
             amount1 = amount - armorDamage
         in p1\<lparr>health := max 0 (health p1 - amount1)\<rparr>)
      else p\<lparr>health := max 0 (health p - amount)\<rparr>)"

definition Player_heal :: "Player \<Rightarrow> real \<Rightarrow> Player" where
  "Player_heal p amount = p\<lparr>health := min (maxHealth p) (health p + amount)\<rparr>"

definition Player_addArmor :: "Player \<Rightarrow> real \<Rightarrow> Player" where
  "Player_addArmor p amount = p\<lparr>armor := min (maxArmor p) (armor p + amount)\<rparr>"

definition Player_addShield :: "Player \<Rightarrow> Player" where
  "Player_addShield p = p\<lparr>armor := armor p + 50\<rparr>"

text \<open>
  \<^verbatim>\<open>pickUpPowerUp\<close>: the class \<^verbatim>\<open>PowerUp\<close> is not part of the sources; the argument is
  the string its \<^verbatim>\<open>getType()\<close> answers.
\<close>

definition Player_pickUpPowerUp :: "Player \<Rightarrow> string \<Rightarrow> Player" where
  "Player_pickUpPowerUp p powerUpType =
     (if powerUpType = ''shield'' then Player_addShield p else p)"


section \<open>Concrete states\<close>

text \<open>A storm that has reached its final radius of 20.\<close>

definition Storm_at_final :: Storm where
  "Storm_at_final = Storm_new\<lparr>radius := 20, targetRadius := 20\<rparr>"

text \<open>
  The assault rifle (fire rate 10) down to its last round, and the same rifle empty,
  one and a half seconds into its reload of two seconds.
\<close>

definition rifle_last_round :: Weapon where
  "rifle_last_round = (Weapon_new assaultRifle_config)\<lparr>ammo := 1\<rparr>"

definition rifle_reloading :: Weapon where
  "rifle_reloading =
     (Weapon_new assaultRifle_config)\<lparr>ammo := 0, isReloading := True, lastShotTime := 3 / 2\<rparr>"

text \<open>
  A camera looking along the z axis, a world in which every ray meets a climbable
  object at distance 1, and a player on that ladder: five units up, in climbing mode
  with the upward velocity of the last tick, holding the backward key (or the forward
  key).
\<close>

definition level_camera :: Camera where
  "level_camera = \<lparr>quaternion_z = vec3 0 0 1, matrix_column0 = vec3 1 0 0\<rparr>"

definition ladder_world :: World where
  "ladder_world = (\<lambda>origin dir. [\<lparr>distance = 1, isClimbable = True\<rparr>])"

definition climber_backward :: Player where
  "climber_backward =
     (Player_new level_camera)
       \<lparr>moveBackward := True, isClimbing := True, velocity := vec3 0 3 0,
        controls_position := vec3 30 5 30\<rparr>"

definition climber_forward :: Player where
  "climber_forward = climber_backward\<lparr>moveBackward := False, moveForward := True\<rparr>"

text \<open>
  A crouching player in the air at the height \<open>0.6\<close>, that is at the double nearest to
  it, \<open>5404319552844595 / 2\<^sup>5\<^sup>3\<close>. It is the height \<open>0.5 + 5 * 0.02\<close> that a player
  crouching on the floor has after \<^verbatim>\<open>jump()\<close> and an \<^verbatim>\<open>update\<close> of 0.02 seconds.
\<close>

definition crouched_airborne :: Player where
  "crouched_airborne =
     (Player_new level_camera)
       \<lparr>isCrouching := True, controls_position := vec3 30 (5404319552844595 / 2 ^ 53) 30\<rparr>"

text \<open>Health and armor within their ranges.\<close>

definition stats_in_range :: "Player \<Rightarrow> bool" where
  "stats_in_range p \<longleftrightarrow>
     0 \<le> health p \<and> health p \<le> maxHealth p \<and> 0 \<le> armor p \<and> armor p \<le> maxArmor p"


section \<open>Properties of the storm\<close>

lemma Storm_new_inv: "storm_inv Storm_new"
  by (simp add: storm_inv_def Storm_new_def Storm_config_def)

lemma Storm_tick_config [simp]: "config (Storm_tick s delta) = config s"
  by (simp add: Storm_tick_def Let_def)

lemma Storm_tick_center [simp]: "center (Storm_tick s delta) = center s"
  by (simp add: Storm_tick_def Let_def)

lemma Storm_update_fst [simp]: "fst (Storm_update s delta p) = Storm_tick s delta"
  by (simp add: Storm_update_def Let_def)

text \<open>The divisor of the shrink step is positive when the shrink duration is.\<close>

lemma shrink_divisor_pos:
  "0 < shrinkDuration (config s) \<Longrightarrow> phase (Storm_tick s delta) = Shrinking
   \<Longrightarrow> 0 < timeRemaining (Storm_tick s delta)"
  by (auto simp: Storm_tick_def Let_def split: if_splits)

lemma Storm_tick_inv:
  assumes "storm_inv s" "0 \<le> delta"
  shows "storm_inv (Storm_tick s delta)"
  using assms
  by (auto simp: Storm_tick_def Let_def storm_inv_def max_def not_le
      split: if_splits intro: mult_nonneg_nonneg)

lemma Storm_tick_radius_le:
  assumes "storm_inv s" "0 \<le> delta"
  shows "radius (Storm_tick s delta) \<le> radius s"
  using assms
  by (auto simp: Storm_tick_def Let_def storm_inv_def max_def not_le
      split: if_splits intro: mult_nonneg_nonneg)

lemma Storm_run_states:
  assumes "storm_inv s" "\<forall>c \<in> set cs. 0 \<le> fst c" "s' \<in> set (Storm_run s cs)"
  shows "storm_inv s' \<and> radius s' \<le> radius s \<and> config s' = config s"
  using assms
proof (induction cs arbitrary: s)
  case Nil
  then show ?case by simp
next
  case (Cons c cs)
  let ?t = "Storm_tick s (fst c)"
  have d: "0 \<le> fst c" using Cons.prems(2) by simp
  have inv: "storm_inv ?t" using Cons.prems(1) d by (rule Storm_tick_inv)
  have le: "radius ?t \<le> radius s" using Cons.prems(1) d by (rule Storm_tick_radius_le)
  from Cons.prems(3) have "s' = ?t \<or> s' \<in> set (Storm_run ?t cs)"
    by (simp add: Let_def)
  then show ?case
  proof
    assume "s' = ?t"
    with inv le show ?thesis by simp
  next
    assume "s' \<in> set (Storm_run ?t cs)"
    with Cons.IH [OF inv] Cons.prems(2)
    have "storm_inv s' \<and> radius s' \<le> radius ?t \<and> config s' = config ?t" by simp
    with le show ?thesis by simp
  qed
qed

lemma Storm_run_sorted:
  assumes "storm_inv s" "\<forall>c \<in> set cs. 0 \<le> fst c"
  shows "sorted_wrt (\<lambda>a b. radius b \<le> radius a) (s # Storm_run s cs)"
  using assms
proof (induction cs arbitrary: s)
  case Nil
  then show ?case by simp
next
  case (Cons c cs)
  let ?t = "Storm_tick s (fst c)"
  have d: "0 \<le> fst c" using Cons.prems(2) by simp
  have inv: "storm_inv ?t" using Cons.prems(1) d by (rule Storm_tick_inv)
  have tail: "sorted_wrt (\<lambda>a b. radius b \<le> radius a) (?t # Storm_run ?t cs)"
    using Cons.IH [OF inv] Cons.prems(2) by simp
  have "\<forall>s' \<in> set (Storm_run s (c # cs)). radius s' \<le> radius s"
    using Storm_run_states [OF Cons.prems(1) Cons.prems(2)] by blast
  with tail show ?case by (simp add: Let_def)
qed

text \<open>
  C1: for every sequence of \<^verbatim>\<open>Storm.update\<close> calls with non-negative time deltas, the
  radius is non-increasing from one call to the next and never smaller than the
  configured \<open>finalRadius\<close>. The sequence starts in any state that satisfies the
  invariant \<open>storm_inv\<close>, as the constructed storm does (\<open>Storm_new_inv\<close>); the list
  \<open>s # Storm_run s cs\<close> is the state before the first call and after each call, and every
  earlier radius in it is at least every later one.
\<close>

theorem storm_radius_monotone_bounded:
  assumes "storm_inv s" and "\<forall>c \<in> set cs. 0 \<le> fst c"
  shows "sorted_wrt (\<lambda>a b. radius b \<le> radius a) (s # Storm_run s cs) \<and>
         (\<forall>s' \<in> set (Storm_run s cs). finalRadius (config s) \<le> radius s')"
proof
  show "sorted_wrt (\<lambda>a b. radius b \<le> radius a) (s # Storm_run s cs)"
    using assms by (rule Storm_run_sorted)
  show "\<forall>s' \<in> set (Storm_run s cs). finalRadius (config s) \<le> radius s'"
  proof
    fix s' assume "s' \<in> set (Storm_run s cs)"
    with assms have "storm_inv s' \<and> config s' = config s"
      using Storm_run_states by blast
    then show "finalRadius (config s) \<le> radius s'"
      by (auto simp: storm_inv_def)
  qed
qed

text \<open>
  The constructed storm, updated twice by 30 seconds: the pause ends in the first call,
  and the radius goes from 200 to 170 and to 140.
\<close>

theorem storm_radius_monotone_bounded_witness:
  "storm_inv Storm_new \<and>
   map radius (Storm_run Storm_new [(30, vec3 0 0 0), (30, vec3 0 0 0)]) = [170, 140] \<and>
   sorted_wrt (\<lambda>a b. radius b \<le> radius a)
     (Storm_new # Storm_run Storm_new [(30, vec3 0 0 0), (30, vec3 0 0 0)]) \<and>
   list_all (\<lambda>s'. finalRadius (config Storm_new) \<le> radius s')
     (Storm_run Storm_new [(30, vec3 0 0 0), (30, vec3 0 0 0)])"
proof -
  have h: "\<forall>c \<in> set [(30, vec3 0 0 0), (30, vec3 0 0 0)]. (0::real) \<le> fst c" by simp
  have r: "map radius (Storm_run Storm_new [(30, vec3 0 0 0), (30, vec3 0 0 0)]) = [170, 140]"
    by (simp add: Storm_tick_def Storm_new_def Storm_config_def Let_def)
  show ?thesis
    using storm_radius_monotone_bounded [OF Storm_new_inv h] Storm_new_inv r
    unfolding list_all_iff by blast
qed

lemma sqrt_625: "sqrt 625 = 25"
  by (rule real_sqrt_unique) simp_all

text \<open>
  C7: \<^verbatim>\<open>Storm.update(dt, actorPosition)\<close> returns \<open>damage \<cdot> dt\<close> when the planar \<open>(x, z)\<close>
  distance from the actor to the centre exceeds the current radius, the radius after the
  shrink step of this call, and 0 otherwise. With planar distance 25, radius 20, damage
  per second 2 and \<open>dt = 0.5\<close> it returns 1: both when 20 is the radius the distance is
  compared with, and when 20 is the radius before the call in a state that satisfies the
  invariant.
\<close>

theorem storm_damage_rule:
  "snd (Storm_update s delta p) =
     (if distanceTo (vec2 (v3x p) (v3z p)) (center s) > radius (fst (Storm_update s delta p))
      then damage (config s) * delta else 0) \<and>
   (radius (fst (Storm_update s (1 / 2) p)) = 20 \<and> damage (config s) = 2 \<and>
    distanceTo (vec2 (v3x p) (v3z p)) (center s) = 25
      \<longrightarrow> snd (Storm_update s (1 / 2) p) = 1) \<and>
   (storm_inv s \<and> radius s = 20 \<and> damage (config s) = 2 \<and>
    distanceTo (vec2 (v3x p) (v3z p)) (center s) = 25
      \<longrightarrow> snd (Storm_update s (1 / 2) p) = 1)"
proof -
  have rule: "snd (Storm_update s d p) =
     (if distanceTo (vec2 (v3x p) (v3z p)) (center s) > radius (fst (Storm_update s d p))
      then damage (config s) * d else 0)" for d
    by (simp add: Storm_update_def Let_def)
  have le: "storm_inv s \<Longrightarrow> radius (Storm_tick s (1 / 2)) \<le> radius s"
    by (rule Storm_tick_radius_le) simp_all
  show ?thesis
    using rule [of delta] rule [of "1 / 2"] le by auto
qed

text \<open>The storm at its final radius and an actor at \<open>(15, 3, 20)\<close>, planar distance 25.\<close>

theorem storm_damage_rule_witness:
  "storm_inv Storm_at_final \<and> radius Storm_at_final = 20 \<and>
   radius (fst (Storm_update Storm_at_final (1 / 2) (vec3 15 3 20))) = 20 \<and>
   damage (config Storm_at_final) = 2 \<and>
   distanceTo (vec2 (v3x (vec3 15 3 20)) (v3z (vec3 15 3 20))) (center Storm_at_final) = 25 \<and>
   snd (Storm_update Storm_at_final (1 / 2) (vec3 15 3 20)) = 1"
proof -
  have a: "storm_inv Storm_at_final"
    by (simp add: storm_inv_def Storm_at_final_def Storm_new_def Storm_config_def)
  have b: "radius Storm_at_final = 20" "damage (config Storm_at_final) = 2"
    by (simp_all add: Storm_at_final_def Storm_new_def Storm_config_def)
  have c: "distanceTo (vec2 (v3x (vec3 15 3 20)) (v3z (vec3 15 3 20))) (center Storm_at_final) = 25"
    by (simp add: distanceTo_def distanceToSquared_def vec2_def vec3_def Storm_at_final_def
        Storm_new_def sqrt_625)
  have d: "radius (fst (Storm_update Storm_at_final (1 / 2) (vec3 15 3 20))) = 20"
    by (simp add: Storm_tick_def Let_def Storm_at_final_def Storm_new_def Storm_config_def)
  show ?thesis
    using storm_damage_rule [of Storm_at_final "1 / 2" "vec3 15 3 20"] a b c d by simp
qed

text \<open>
  C8: if the configured \<open>shrinkDuration\<close> and \<open>pauseDuration\<close> are both positive, the
  phase timer is positive after every \<^verbatim>\<open>Storm.update\<close> call with \<open>delta \<ge> 0\<close>: in the
  call in which the timer reaches or crosses zero it is reset to the full duration of
  the next phase.
\<close>

theorem storm_timer_positive:
  assumes "0 < shrinkDuration (config s)" and "0 < pauseDuration (config s)" and "0 \<le> delta"
  shows "0 < timeRemaining (fst (Storm_update s delta p)) \<and>
         (timeRemaining s - delta \<le> 0 \<longrightarrow>
            timeRemaining (fst (Storm_update s delta p)) =
              (if phase s = Paused then shrinkDuration (config s) else pauseDuration (config s)))"
  using assms by (auto simp: Storm_tick_def Let_def)

text \<open>The constructed storm after 30 seconds: the pause is over, the timer is at 60.\<close>

theorem storm_timer_positive_witness:
  "0 < shrinkDuration (config Storm_new) \<and> 0 < pauseDuration (config Storm_new) \<and>
   (0::real) \<le> 30 \<and> timeRemaining Storm_new - 30 \<le> 0 \<and>
   timeRemaining (fst (Storm_update Storm_new 30 (vec3 0 0 0))) = 60"
proof -
  have a: "0 < shrinkDuration (config Storm_new)" "0 < pauseDuration (config Storm_new)"
    by (simp_all add: Storm_new_def Storm_config_def)
  have b: "timeRemaining Storm_new - 30 \<le> 0" "phase Storm_new = Paused"
    "shrinkDuration (config Storm_new) = 60"
    by (simp_all add: Storm_new_def Storm_config_def)
  show ?thesis
    using storm_timer_positive [OF a, of 30 "vec3 0 0 0"] a b by simp
qed


section \<open>Properties of the weapon\<close>

lemma rifle_last_round_simps:
  "ammo rifle_last_round = 1" "reserveAmmo rifle_last_round = 120"
  "isReloading rifle_last_round = False" "lastShotTime rifle_last_round = 0"
  "shootingInterval rifle_last_round = 1 / 10"
  "fireRate (weapon_config rifle_last_round) = 10"
  "maxAmmo (weapon_config rifle_last_round) = 30"
  "muzzleFlash rifle_last_round = None"
  by (simp_all add: rifle_last_round_def Weapon_new_def assaultRifle_config_def)

text \<open>
  C2, as stated, fails: the rifle with one round fires when the clock reads 1 and is
  empty afterwards. The second call, 0.05 seconds later and inside the cooldown interval
  of 0.1 seconds, is not rejected by the cooldown: the test for an empty weapon comes
  first in \<^verbatim>\<open>shoot\<close>, and the call starts the reload and resets the timer.
\<close>

theorem second_shot_starts_reload_counterexample:
  "Weapon_fires rifle_last_round 1 \<and>
   ammo (Weapon_shoot rifle_last_round 1) = 0 \<and>
   \<not> isReloading (Weapon_shoot rifle_last_round 1) \<and>
   (105 / 100 :: real) - lastShotTime (Weapon_shoot rifle_last_round 1)
      < shootingInterval (Weapon_shoot rifle_last_round 1) \<and>
   isReloading (Weapon_shoot (Weapon_shoot rifle_last_round 1) (105 / 100)) \<and>
   lastShotTime (Weapon_shoot (Weapon_shoot rifle_last_round 1) (105 / 100)) = 0"
  by (simp add: Weapon_fires_def Weapon_shoot_def Weapon_reload_def Let_def
      rifle_last_round_simps)

text \<open>
  C2, amended: for a weapon with fire rate 10 (cooldown interval 0.1 seconds), one round
  and not reloading, whose cooldown has elapsed at time \<open>t\<close>, \<^verbatim>\<open>shoot\<close> at \<open>t\<close> fires and
  leaves \<open>ammo = 0\<close> and the reserve as it was. The next \<^verbatim>\<open>shoot\<close>, at \<open>t + 0.05\<close> or at
  any other time \<open>t'\<close>, is not compared with the cooldown: the weapon being empty, the
  call is \<^verbatim>\<open>reload\<close>, which changes neither \<open>ammo\<close> nor the reserve and, when there is
  reserve ammunition and \<open>maxAmmo\<close> is not 0, sets the reloading flag and resets the
  timer to 0 at once.
\<close>

theorem last_round_then_reload:
  assumes "fireRate (weapon_config w) = 10"
    and "shootingInterval w = 1 / fireRate (weapon_config w)"
    and "ammo w = 1" and "\<not> isReloading w"
    and "shootingInterval w \<le> t - lastShotTime w"
  shows "ammo (Weapon_shoot w t) = 0 \<and>
         reserveAmmo (Weapon_shoot w t) = reserveAmmo w \<and>
         \<not> isReloading (Weapon_shoot w t) \<and>
         lastShotTime (Weapon_shoot w t) = t \<and>
         ammo (Weapon_shoot (Weapon_shoot w t) t') = 0 \<and>
         reserveAmmo (Weapon_shoot (Weapon_shoot w t) t') = reserveAmmo w \<and>
         (isReloading (Weapon_shoot (Weapon_shoot w t) t') \<longleftrightarrow>
            0 < reserveAmmo w \<and> maxAmmo (weapon_config w) \<noteq> 0) \<and>
         lastShotTime (Weapon_shoot (Weapon_shoot w t) t') =
            (if 0 < reserveAmmo w \<and> maxAmmo (weapon_config w) \<noteq> 0 then 0 else t)"
proof -
  let ?w1 = "Weapon_shoot w t"
  have w1: "ammo ?w1 = 0" "reserveAmmo ?w1 = reserveAmmo w" "\<not> isReloading ?w1"
    "lastShotTime ?w1 = t" "weapon_config ?w1 = weapon_config w"
    using assms by (simp_all add: Weapon_shoot_def Let_def split: option.splits)
  have w2: "Weapon_shoot ?w1 t' = Weapon_reload ?w1"
    using w1 by (simp add: Weapon_shoot_def)
  show ?thesis
    using w1 by (auto simp: w2 Weapon_reload_def)
qed

theorem last_round_then_reload_witness:
  "fireRate (weapon_config rifle_last_round) = 10 \<and>
   shootingInterval rifle_last_round = 1 / fireRate (weapon_config rifle_last_round) \<and>
   ammo rifle_last_round = 1 \<and> \<not> isReloading rifle_last_round \<and>
   shootingInterval rifle_last_round \<le> 1 - lastShotTime rifle_last_round \<and>
   ammo (Weapon_shoot rifle_last_round 1) = 0 \<and>
   isReloading (Weapon_shoot (Weapon_shoot rifle_last_round 1) (105 / 100)) \<and>
   ammo (Weapon_shoot (Weapon_shoot rifle_last_round 1) (105 / 100)) = 0 \<and>
   reserveAmmo (Weapon_shoot (Weapon_shoot rifle_last_round 1) (105 / 100)) = 120"
proof -
  have h: "fireRate (weapon_config rifle_last_round) = 10"
    "shootingInterval rifle_last_round = 1 / fireRate (weapon_config rifle_last_round)"
    "ammo rifle_last_round = 1" "\<not> isReloading rifle_last_round"
    "shootingInterval rifle_last_round \<le> 1 - lastShotTime rifle_last_round"
    by (simp_all add: rifle_last_round_simps)
  show ?thesis
    using last_round_then_reload [OF h, of "105 / 100"] h
    by (simp add: rifle_last_round_simps)
qed

text \<open>
  C6: whenever a reload completes during \<^verbatim>\<open>Weapon.update\<close> (the weapon is reloading and
  the timer, with \<open>delta\<close> added, has reached \<open>reloadTime\<close>), exactly
  \<open>min (maxAmmo - ammo) reserveAmmo\<close> rounds move from the reserve to \<open>ammo\<close>, the
  reloading flag is cleared, and \<open>ammo + reserveAmmo\<close> is what it was before.
\<close>

theorem reload_completion_conserves_rounds:
  assumes "isReloading w" and "reloadTime (weapon_config w) \<le> lastShotTime w + delta"
  shows "ammo (Weapon_update w delta) =
           ammo w + min (maxAmmo (weapon_config w) - ammo w) (reserveAmmo w) \<and>
         reserveAmmo (Weapon_update w delta) =
           reserveAmmo w - min (maxAmmo (weapon_config w) - ammo w) (reserveAmmo w) \<and>
         \<not> isReloading (Weapon_update w delta) \<and>
         ammo (Weapon_update w delta) + reserveAmmo (Weapon_update w delta) =
           ammo w + reserveAmmo w"
  using assms by (simp add: Weapon_update_def Weapon_completeReload_def Let_def)

text \<open>The empty rifle finishes its reload: 30 rounds loaded, 90 left in reserve.\<close>

theorem reload_completion_conserves_rounds_witness:
  "isReloading rifle_reloading \<and>
   reloadTime (weapon_config rifle_reloading) \<le> lastShotTime rifle_reloading + 1 / 2 \<and>
   ammo (Weapon_update rifle_reloading (1 / 2)) = 30 \<and>
   reserveAmmo (Weapon_update rifle_reloading (1 / 2)) = 90 \<and>
   \<not> isReloading (Weapon_update rifle_reloading (1 / 2))"
proof -
  have h: "isReloading rifle_reloading"
    "reloadTime (weapon_config rifle_reloading) \<le> lastShotTime rifle_reloading + 1 / 2"
    by (simp_all add: rifle_reloading_def Weapon_new_def assaultRifle_config_def)
  have v: "ammo rifle_reloading = 0" "reserveAmmo rifle_reloading = 120"
    "maxAmmo (weapon_config rifle_reloading) = 30"
    by (simp_all add: rifle_reloading_def Weapon_new_def assaultRifle_config_def)
  show ?thesis
    using reload_completion_conserves_rounds [OF h] h by (simp add: v)
qed

text \<open>
  C9: \<^verbatim>\<open>Weapon.shoot\<close> never changes \<open>reserveAmmo\<close>, in any state of the weapon. A shot
  rejected because the weapon is reloading, empty or inside the cooldown interval
  leaves \<open>ammo\<close> as it is, and a fired shot takes one round from it. A rejection while
  reloading or by the cooldown changes nothing at all; a rejection of an empty weapon
  changes nothing or sets the reloading flag and resets the timer, and nothing else.
\<close>

theorem shoot_keeps_reserve:
  "reserveAmmo (Weapon_shoot w now) = reserveAmmo w \<and>
   (isReloading w \<or> ammo w \<le> 0 \<or> now - lastShotTime w < shootingInterval w
      \<longrightarrow> ammo (Weapon_shoot w now) = ammo w) \<and>
   (\<not> (isReloading w \<or> ammo w \<le> 0 \<or> now - lastShotTime w < shootingInterval w)
      \<longrightarrow> ammo (Weapon_shoot w now) = ammo w - 1) \<and>
   (isReloading w \<or> (0 < ammo w \<and> now - lastShotTime w < shootingInterval w)
      \<longrightarrow> Weapon_shoot w now = w) \<and>
   (\<not> isReloading w \<and> ammo w \<le> 0
      \<longrightarrow> Weapon_shoot w now = w \<or>
          Weapon_shoot w now = w\<lparr>isReloading := True, lastShotTime := 0\<rparr>)"
  by (auto simp: Weapon_shoot_def Weapon_reload_def Let_def split: option.splits)

text \<open>
  The rifle with one round: fired when the clock reads 1, rejected by the cooldown when
  it reads 0.05, rejected while reloading, and rejected when empty.
\<close>

theorem shoot_keeps_reserve_witness:
  "\<not> (isReloading rifle_last_round \<or> ammo rifle_last_round \<le> 0 \<or>
      1 - lastShotTime rifle_last_round < shootingInterval rifle_last_round) \<and>
   ammo (Weapon_shoot rifle_last_round 1) = 0 \<and>
   reserveAmmo (Weapon_shoot rifle_last_round 1) = 120 \<and>
   (0 < ammo rifle_last_round \<and>
      5 / 100 - lastShotTime rifle_last_round < shootingInterval rifle_last_round) \<and>
   Weapon_shoot rifle_last_round (5 / 100) = rifle_last_round \<and>
   isReloading rifle_reloading \<and>
   Weapon_shoot rifle_reloading 1 = rifle_reloading \<and>
   (\<not> isReloading (rifle_last_round\<lparr>ammo := 0\<rparr>) \<and> ammo (rifle_last_round\<lparr>ammo := 0\<rparr>) \<le> 0) \<and>
   Weapon_shoot (rifle_last_round\<lparr>ammo := 0\<rparr>) 1 =
     rifle_last_round\<lparr>ammo := 0, isReloading := True, lastShotTime := 0\<rparr>"
proof -
  have a: "\<not> (isReloading rifle_last_round \<or> ammo rifle_last_round \<le> 0 \<or>
      1 - lastShotTime rifle_last_round < shootingInterval rifle_last_round)"
    by (simp add: rifle_last_round_simps)
  have b: "0 < ammo rifle_last_round \<and>
      5 / 100 - lastShotTime rifle_last_round < shootingInterval rifle_last_round"
    by (simp add: rifle_last_round_simps)
  have c: "isReloading rifle_reloading"
    by (simp add: rifle_reloading_def)
  have d: "\<not> isReloading (rifle_last_round\<lparr>ammo := 0\<rparr>) \<and> ammo (rifle_last_round\<lparr>ammo := 0\<rparr>) \<le> 0"
    by (simp add: rifle_last_round_simps)
  have e: "Weapon_shoot (rifle_last_round\<lparr>ammo := 0\<rparr>) 1 =
     rifle_last_round\<lparr>ammo := 0, isReloading := True, lastShotTime := 0\<rparr>"
    by (simp add: Weapon_shoot_def Weapon_reload_def rifle_last_round_simps)
  show ?thesis
    using shoot_keeps_reserve [of rifle_last_round 1]
      shoot_keeps_reserve [of rifle_last_round "5 / 100"]
      shoot_keeps_reserve [of rifle_reloading 1]
      shoot_keeps_reserve [of "rifle_last_round\<lparr>ammo := 0\<rparr>" 1]
      a b c d e
    by (simp add: rifle_last_round_simps)
qed


section \<open>Properties of the player\<close>

lemma update_lateral_fields [simp]:
  "v3y (velocity (update_lateral p world)) = v3y (velocity p)"
  "isClimbing (update_lateral p world) = isClimbing p"
  "health (update_lateral p world) = health p"
  "maxHealth (update_lateral p world) = maxHealth p"
  "armor (update_lateral p world) = armor p"
  "maxArmor (update_lateral p world) = maxArmor p"
  by (simp_all add: update_lateral_def Let_def)

lemma update_direction_fields [simp]:
  "velocity (update_direction p) = velocity p"
  "isClimbing (update_direction p) = isClimbing p"
  "moveForward (update_direction p) = moveForward p"
  "moveBackward (update_direction p) = moveBackward p"
  "climbSpeed (update_direction p) = climbSpeed p"
  "health (update_direction p) = health p"
  "maxHealth (update_direction p) = maxHealth p"
  "armor (update_direction p) = armor p"
  "maxArmor (update_direction p) = maxArmor p"
  by (simp_all add: update_direction_def)

lemma update_climb_fields [simp]:
  "isClimbing (update_climb p) = isClimbing p"
  "health (update_climb p) = health p"
  "maxHealth (update_climb p) = maxHealth p"
  "armor (update_climb p) = armor p"
  "maxArmor (update_climb p) = maxArmor p"
  by (simp_all add: update_climb_def)

lemma update_gravity_fields [simp]:
  "isClimbing (update_gravity p delta) = isClimbing p"
  "moveForward (update_gravity p delta) = moveForward p"
  "moveBackward (update_gravity p delta) = moveBackward p"
  "climbSpeed (update_gravity p delta) = climbSpeed p"
  "health (update_gravity p delta) = health p"
  "maxHealth (update_gravity p delta) = maxHealth p"
  "armor (update_gravity p delta) = armor p"
  "maxArmor (update_gravity p delta) = maxArmor p"
  by (simp_all add: update_gravity_def)

lemma checkClimbing_fields [simp]:
  "moveForward (checkClimbing p world) = moveForward p"
  "moveBackward (checkClimbing p world) = moveBackward p"
  "climbSpeed (checkClimbing p world) = climbSpeed p"
  "gravity (checkClimbing p world) = gravity p"
  "isOnGround (checkClimbing p world) = isOnGround p"
  "health (checkClimbing p world) = health p"
  "maxHealth (checkClimbing p world) = maxHealth p"
  "armor (checkClimbing p world) = armor p"
  "maxArmor (checkClimbing p world) = maxArmor p"
  by (simp_all add: checkClimbing_def Let_def isOnGround_def stanceHeight_def)

text \<open>Without the forward key \<^verbatim>\<open>checkClimbing\<close> only leaves the climbing mode.\<close>

lemma checkClimbing_not_forward:
  "\<not> moveForward p \<Longrightarrow> checkClimbing p world = p\<lparr>isClimbing := False\<rparr>"
  by (simp add: checkClimbing_def Let_def)

lemma checkClimbing_forward:
  assumes "moveForward p"
    and "\<exists>i \<in> set (world (controls_position p)
            (Vector3_normalize ((quaternion_z (camera p))\<lparr>v3y := 0\<rparr>))).
          distance i < 15 / 10 \<and> isClimbable i"
  shows "isClimbing (checkClimbing p world)"
    and "v3y (velocity (checkClimbing p world)) = climbSpeed p"
  using assms by (simp_all add: checkClimbing_def Let_def)

text \<open>
  C4: what \<^verbatim>\<open>Player.update\<close> does with the climbing keys. With the backward key and
  without the forward key the player is never in climbing mode when the position is
  moved, whatever the mode was before the call and whatever the world answers: the
  vertical velocity is the one gravity gives, not \<open>- climbSpeed\<close>. With the forward key,
  next to a climbable surface, the player climbs and the vertical velocity is
  \<open>climbSpeed\<close>.
\<close>

theorem climbing_backward_falls:
  "(moveBackward p \<and> \<not> moveForward p \<longrightarrow>
      \<not> isClimbing (Player_update_velocity p delta world) \<and>
      v3y (velocity (Player_update_velocity p delta world)) =
        (if \<not> isOnGround p then v3y (velocity p) - gravity p * delta
         else if v3y (velocity p) < 0 then - (1 / 10) else v3y (velocity p))) \<and>
   (moveForward p \<and> (\<exists>i \<in> set (world (controls_position p)
        (Vector3_normalize ((quaternion_z (camera p))\<lparr>v3y := 0\<rparr>))).
          distance i < 15 / 10 \<and> isClimbable i) \<longrightarrow>
      isClimbing (Player_update_velocity p delta world) \<and>
      v3y (velocity (Player_update_velocity p delta world)) = climbSpeed p)"
proof (intro conjI impI)
  assume b: "moveBackward p \<and> \<not> moveForward p"
  then have c: "checkClimbing p world = p\<lparr>isClimbing := False\<rparr>"
    by (simp add: checkClimbing_not_forward)
  show "\<not> isClimbing (Player_update_velocity p delta world)"
    by (simp add: Player_update_velocity_def c)
  show "v3y (velocity (Player_update_velocity p delta world)) =
        (if \<not> isOnGround p then v3y (velocity p) - gravity p * delta
         else if v3y (velocity p) < 0 then - (1 / 10) else v3y (velocity p))"
    using b by (simp add: Player_update_velocity_def c update_climb_def update_gravity_def
        isOnGround_def stanceHeight_def)
next
  assume f: "moveForward p \<and> (\<exists>i \<in> set (world (controls_position p)
        (Vector3_normalize ((quaternion_z (camera p))\<lparr>v3y := 0\<rparr>))).
          distance i < 15 / 10 \<and> isClimbable i)"
  then have c: "isClimbing (checkClimbing p world)"
    by (simp add: checkClimbing_forward)
  show "isClimbing (Player_update_velocity p delta world)"
    by (simp add: Player_update_velocity_def c)
  show "v3y (velocity (Player_update_velocity p delta world)) = climbSpeed p"
    using f c by (simp add: Player_update_velocity_def update_climb_def)
qed

text \<open>
  The player on the ladder, climbing with velocity 3, for a tick of 0.1 seconds: with
  the backward key the vertical velocity is \<open>3 - 9.8 \<cdot> 0.1 = 2.02\<close>, still upwards, and
  not \<open>- climbSpeed = - 3\<close>; with the forward key it is \<open>climbSpeed = 3\<close>.
\<close>

theorem climbing_backward_falls_witness:
  "(moveBackward climber_backward \<and> \<not> moveForward climber_backward) \<and>
   isClimbing climber_backward \<and> climbSpeed climber_backward = 3 \<and>
   \<not> isClimbing (Player_update_velocity climber_backward (1 / 10) ladder_world) \<and>
   v3y (velocity (Player_update_velocity climber_backward (1 / 10) ladder_world)) = 101 / 50 \<and>
   (moveForward climber_forward \<and>
    (\<exists>i \<in> set (ladder_world (controls_position climber_forward)
        (Vector3_normalize ((quaternion_z (camera climber_forward))\<lparr>v3y := 0\<rparr>))).
          distance i < 15 / 10 \<and> isClimbable i)) \<and>
   isClimbing (Player_update_velocity climber_forward (1 / 10) ladder_world) \<and>
   v3y (velocity (Player_update_velocity climber_forward (1 / 10) ladder_world)) = 3"
proof -
  have b: "moveBackward climber_backward \<and> \<not> moveForward climber_backward"
    "isClimbing climber_backward" "climbSpeed climber_backward = 3"
    "\<not> isOnGround climber_backward" "v3y (velocity climber_backward) = 3"
    "gravity climber_backward = 98 / 10"
    by (simp_all add: climber_backward_def Player_new_def isOnGround_def stanceHeight_def
        vec3_def)
  have f: "moveForward climber_forward \<and>
    (\<exists>i \<in> set (ladder_world (controls_position climber_forward)
        (Vector3_normalize ((quaternion_z (camera climber_forward))\<lparr>v3y := 0\<rparr>))).
          distance i < 15 / 10 \<and> isClimbable i)"
    "climbSpeed climber_forward = 3"
    by (simp_all add: climber_forward_def climber_backward_def Player_new_def ladder_world_def)
  show ?thesis
    using climbing_backward_falls [of climber_backward "1 / 10" ladder_world]
      climbing_backward_falls [of climber_forward "1 / 10" ladder_world] b f
    by simp
qed

text \<open>
  C3 fails on the shield: \<^verbatim>\<open>addShield\<close> adds 50 to the armor without the bound
  \<open>maxArmor\<close> that \<^verbatim>\<open>addArmor\<close> applies. A new player who picks up three shields has
  armor 150 with \<open>maxArmor = 100\<close>.
\<close>

theorem shield_exceeds_maxArmor:
  "armor (Player_pickUpPowerUp (Player_pickUpPowerUp (Player_pickUpPowerUp
      (Player_new level_camera) ''shield'') ''shield'') ''shield'') = 150 \<and>
   maxArmor (Player_pickUpPowerUp (Player_pickUpPowerUp (Player_pickUpPowerUp
      (Player_new level_camera) ''shield'') ''shield'') ''shield'') = 100"
  by (simp add: Player_pickUpPowerUp_def Player_addShield_def Player_new_def)

text \<open>
  Every other operation keeps health and armor in their ranges, for amounts that are
  not negative.
\<close>

lemma Player_new_in_range: "stats_in_range (Player_new cam)"
  by (simp add: stats_in_range_def Player_new_def)

lemma takeDamage_in_range:
  "stats_in_range p \<Longrightarrow> 0 \<le> amount \<Longrightarrow> stats_in_range (Player_takeDamage p amount)"
  by (auto simp: stats_in_range_def Player_takeDamage_def Let_def)

lemma heal_in_range:
  "stats_in_range p \<Longrightarrow> 0 \<le> amount \<Longrightarrow> stats_in_range (Player_heal p amount)"
  by (auto simp: stats_in_range_def Player_heal_def)

lemma addArmor_in_range:
  "stats_in_range p \<Longrightarrow> 0 \<le> amount \<Longrightarrow> stats_in_range (Player_addArmor p amount)"
  by (auto simp: stats_in_range_def Player_addArmor_def)

lemma pickUp_other_in_range:
  "stats_in_range p \<Longrightarrow> t \<noteq> ''shield'' \<Longrightarrow> stats_in_range (Player_pickUpPowerUp p t)"
  by (simp add: Player_pickUpPowerUp_def)

lemma on_weapon_stats:
  "on_weapon p i f = Inr p' \<Longrightarrow> health p' = health p \<and> maxHealth p' = maxHealth p \<and>
     armor p' = armor p \<and> maxArmor p' = maxArmor p"
  by (auto simp: on_weapon_def split: option.splits)

lemma Player_update_stats:
  assumes "Player_update p delta world = Inr p'"
  shows "health p' = health p \<and> maxHealth p' = maxHealth p \<and>
         armor p' = armor p \<and> maxArmor p' = maxArmor p"
proof -
  let ?q = "Player_update_position (Player_update_velocity p delta world) delta"
  have q: "health ?q = health p \<and> maxHealth ?q = maxHealth p \<and>
           armor ?q = armor p \<and> maxArmor ?q = maxArmor p"
    by (simp add: Player_update_position_def Player_update_velocity_def
        controls_moveRight_def controls_moveForward_def Let_def)
  from assms have "?q = p' \<or>
      on_weapon ?q (currentWeaponIndex ?q) (\<lambda>w. Weapon_update w delta) = Inr p'"
    by (auto simp: Player_update_def Let_def split: if_splits)
  then show ?thesis using q on_weapon_stats by metis
qed

lemma update_in_range:
  "stats_in_range p \<Longrightarrow> Player_update p delta world = Inr p' \<Longrightarrow> stats_in_range p'"
  using Player_update_stats [of p delta world p'] by (simp add: stats_in_range_def)

text \<open>
  C5: for every \<^verbatim>\<open>takeDamage(amount)\<close> with \<open>amount \<ge> 0\<close>, on a player whose armor is
  not negative, the armor goes down by \<open>min armor (amount \<cdot> 0.5)\<close>, the rest of the amount
  is taken from the health, and the health stops at 0. With armor 30, \<^verbatim>\<open>takeDamage(40)\<close>
  leaves armor 10 and takes 20 from the health (all of it when the health is at least
  20).
\<close>

theorem takeDamage_armor_half:
  assumes "0 \<le> amount" and "0 \<le> armor p"
  shows "armor (Player_takeDamage p amount) = armor p - min (armor p) (amount * (1 / 2)) \<and>
         health (Player_takeDamage p amount) =
           max 0 (health p - (amount - min (armor p) (amount * (1 / 2)))) \<and>
         (armor p = 30 \<longrightarrow>
            armor (Player_takeDamage p 40) = 10 \<and>
            health (Player_takeDamage p 40) = max 0 (health p - 20)) \<and>
         (armor p = 30 \<and> 20 \<le> health p \<longrightarrow> health (Player_takeDamage p 40) = health p - 20)"
  using assms by (auto simp: Player_takeDamage_def Let_def)

text \<open>A new player with 30 armor takes 40 damage: armor 10, health 80.\<close>

theorem takeDamage_armor_half_witness:
  "(0::real) \<le> 40 \<and> 0 \<le> armor (Player_addArmor (Player_new level_camera) 30) \<and>
   armor (Player_addArmor (Player_new level_camera) 30) = 30 \<and>
   20 \<le> health (Player_addArmor (Player_new level_camera) 30) \<and>
   armor (Player_takeDamage (Player_addArmor (Player_new level_camera) 30) 40) = 10 \<and>
   health (Player_takeDamage (Player_addArmor (Player_new level_camera) 30) 40) = 80"
proof -
  have h: "(0::real) \<le> 40" "0 \<le> armor (Player_addArmor (Player_new level_camera) 30)"
    by (simp_all add: Player_addArmor_def Player_new_def)
  have v: "armor (Player_addArmor (Player_new level_camera) 30) = 30"
    "health (Player_addArmor (Player_new level_camera) 30) = 100"
    by (simp_all add: Player_addArmor_def Player_new_def)
  show ?thesis
    using takeDamage_armor_half [OF h] by (simp add: v)
qed

subsection \<open>Rounding to doubles\<close>

lemma find_upto_first:
  assumes "i \<le> e" "e \<le> j" "P e" "\<forall>k. i \<le> k \<and> k < e \<longrightarrow> \<not> P k"
  shows "find P [i..j] = Some e"
  using assms
proof (induction "nat (e - i)" arbitrary: i)
  case 0
  then have "i = e" by simp
  with 0 show ?case by (simp add: upto_rec1)
next
  case (Suc n)
  then have lt: "i < e" by linarith
  then have "\<not> P i" using Suc.prems by simp
  moreover have "find P [i + 1..j] = Some e"
  proof (rule Suc.hyps(1))
    show "n = nat (e - (i + 1))" using Suc.hyps(2) by linarith
    show "i + 1 \<le> e" using lt by simp
    show "e \<le> j" by fact
    show "P e" by fact
    show "\<forall>k. i + 1 \<le> k \<and> k < e \<longrightarrow> \<not> P k" using Suc.prems(4) by simp
  qed
  moreover have "i \<le> j" using lt Suc.prems by linarith
  ultimately show ?case by (simp add: upto_rec1)
qed

text \<open>The exponent of a number in a normal binade, and the rounding there.\<close>

lemma double_exponent_eq:
  assumes "- 1022 \<le> e" "e \<le> 1023" "2 powi e \<le> \<bar>x\<bar>" "\<bar>x\<bar> < 2 powi (e + 1)"
  shows "double_exponent x = e"
proof -
  have "\<not> \<bar>x\<bar> < 2 powi (k + 1)" if "k < e" for k
  proof -
    have "(2::real) powi (k + 1) \<le> 2 powi e"
      using that by (intro power_int_increasing) simp_all
    with assms(3) show ?thesis by simp
  qed
  then have "find (\<lambda>e. \<bar>x\<bar> < 2 powi (e + 1)) [- 1022..1023] = Some e"
    using assms by (intro find_upto_first) simp_all
  then show ?thesis unfolding double_exponent_def by simp
qed

lemma round_double_at:
  assumes "- 1022 \<le> e" "e \<le> 1023" "2 powi e \<le> \<bar>x\<bar>" "\<bar>x\<bar> < 2 powi (e + 1)"
    and "round_half_even (x / 2 powi (e - 52)) = m"
  shows "round_double x = of_int m * 2 powi (e - 52)"
  using assms(5) double_exponent_eq [OF assms(1-4)] by (simp add: round_double_def)

text \<open>
  The doubles of the crouching example: \<open>0.6 + 0.5\<close> is a tie and rounds up to the
  double \<open>1.1\<close>, and \<open>1.1 - 0.5\<close> is the double above \<open>0.6\<close>.
\<close>

lemma round_double_values:
  "round_double 1 = 1"
  "round_double (1 / 2) = 1 / 2"
  "round_double (3 / 2) = 3 / 2"
  "round_double 2 = 2"
  "round_double (5404319552844595 / 2 ^ 53) = 5404319552844595 / 2 ^ 53"
  "round_double (9907919180215091 / 2 ^ 53) = 4953959590107546 / 2 ^ 52"
  "round_double (2702159776422298 / 2 ^ 52) = 5404319552844596 / 2 ^ 53"
proof -
  have "round_double 1 = of_int (2 ^ 52) * 2 powi (0 - 52)"
    by (rule round_double_at) (simp_all add: round_half_even_def power_int_minus_divide)
  then show "round_double 1 = 1" by (simp add: power_int_minus_divide)
  have "round_double (1 / 2) = of_int (2 ^ 52) * 2 powi (- 1 - 52)"
    by (rule round_double_at) (simp_all add: round_half_even_def power_int_minus_divide)
  then show "round_double (1 / 2) = 1 / 2" by (simp add: power_int_minus_divide)
  have "round_double (3 / 2) = of_int (3 * 2 ^ 51) * 2 powi (0 - 52)"
    by (rule round_double_at) (simp_all add: round_half_even_def power_int_minus_divide)
  then show "round_double (3 / 2) = 3 / 2" by (simp add: power_int_minus_divide)
  have "round_double 2 = of_int (2 ^ 52) * 2 powi (1 - 52)"
    by (rule round_double_at) (simp_all add: round_half_even_def power_int_minus_divide)
  then show "round_double 2 = 2" by (simp add: power_int_minus_divide)
  have "round_double (5404319552844595 / 2 ^ 53) =
          of_int 5404319552844595 * 2 powi (- 1 - 52)"
    by (rule round_double_at) (simp_all add: round_half_even_def power_int_minus_divide)
  then show "round_double (5404319552844595 / 2 ^ 53) = 5404319552844595 / 2 ^ 53"
    by (simp add: power_int_minus_divide)
  have "round_double (9907919180215091 / 2 ^ 53) =
          of_int 4953959590107546 * 2 powi (0 - 52)"
    by (rule round_double_at) (simp_all add: round_half_even_def power_int_minus_divide)
  then show "round_double (9907919180215091 / 2 ^ 53) = 4953959590107546 / 2 ^ 52"
    by (simp add: power_int_minus_divide)
  have "round_double (2702159776422298 / 2 ^ 52) =
          of_int 5404319552844596 * 2 powi (- 1 - 52)"
    by (rule round_double_at) (simp_all add: round_half_even_def power_int_minus_divide)
  then show "round_double (2702159776422298 / 2 ^ 52) = 5404319552844596 / 2 ^ 53"
    by (simp add: power_int_minus_divide)
qed

text \<open>
  Where the height of \<open>crouched_airborne\<close> comes from: the literals \<open>0.02\<close> and \<open>0.6\<close> as
  doubles, and \<open>0.5 + 5 * 0.02\<close> computed in doubles.
\<close>

lemma crouched_jump_height:
  "round_double (2 / 100) = 5764607523034235 / 2 ^ 58"
  "js_mul 5 (5764607523034235 / 2 ^ 58) = 7205759403792794 / 2 ^ 56"
  "js_add (1 / 2) (7205759403792794 / 2 ^ 56) = 5404319552844595 / 2 ^ 53"
  "round_double (6 / 10) = 5404319552844595 / 2 ^ 53"
proof -
  have "round_double (2 / 100) = of_int 5764607523034235 * 2 powi (- 6 - 52)"
    by (rule round_double_at) (simp_all add: round_half_even_def power_int_minus_divide)
  then show "round_double (2 / 100) = 5764607523034235 / 2 ^ 58"
    by (simp add: power_int_minus_divide)
  have "round_double (5 * (5764607523034235 / 2 ^ 58)) =
          of_int 7205759403792794 * 2 powi (- 4 - 52)"
    by (rule round_double_at) (simp_all add: round_half_even_def power_int_minus_divide)
  then show "js_mul 5 (5764607523034235 / 2 ^ 58) = 7205759403792794 / 2 ^ 56"
    by (simp add: js_mul_def power_int_minus_divide)
  have "round_double (1 / 2 + 7205759403792794 / 2 ^ 56) =
          of_int 5404319552844595 * 2 powi (- 1 - 52)"
    by (rule round_double_at) (simp_all add: round_half_even_def power_int_minus_divide)
  then show "js_add (1 / 2) (7205759403792794 / 2 ^ 56) = 5404319552844595 / 2 ^ 53"
    by (simp add: js_add_def power_int_minus_divide)
  have "round_double (6 / 10) = of_int 5404319552844595 * 2 powi (- 1 - 52)"
    by (rule round_double_at) (simp_all add: round_half_even_def power_int_minus_divide)
  then show "round_double (6 / 10) = 5404319552844595 / 2 ^ 53"
    by (simp add: power_int_minus_divide)
qed

lemma crouched_airborne_simps:
  "isCrouching crouched_airborne = True"
  "standingHeight crouched_airborne = 2"
  "crouchingHeight crouched_airborne = 1"
  "v3y (controls_position crouched_airborne) = 5404319552844595 / 2 ^ 53"
  by (simp_all add: crouched_airborne_def Player_new_def vec3_def)

lemma toggleCrouch_fields:
  "standingHeight (Player_toggleCrouch p) = standingHeight p"
  "crouchingHeight (Player_toggleCrouch p) = crouchingHeight p"
  "isCrouching (Player_toggleCrouch p) = (\<not> isCrouching p)"
  by (simp_all add: Player_toggleCrouch_def Let_def)

lemma toggleCrouch_y:
  "v3y (controls_position (Player_toggleCrouch p)) =
     (if isCrouching p
      then js_add (v3y (controls_position p))
             (js_div (js_sub (standingHeight p) (crouchingHeight p)) 2)
      else js_sub (v3y (controls_position p))
             (js_div (js_sub (standingHeight p) (crouchingHeight p)) 2))"
  by (simp add: Player_toggleCrouch_def Let_def)

text \<open>
  With the standing height 2 and the crouching height 1 the offset of \<^verbatim>\<open>toggleCrouch\<close>
  is \<open>0.5\<close>; standing up from \<open>0.6\<close> and crouching again from \<open>1.1\<close>.
\<close>

lemma crouch_offset: "js_div (js_sub 2 1) 2 = 1 / 2"
proof -
  have e: "(2 - 1 :: real) = 1" by simp
  show ?thesis
    by (simp only: js_div_def js_sub_def e round_double_values)
qed

lemma crouch_up: "js_add (5404319552844595 / 2 ^ 53) (1 / 2) = 4953959590107546 / 2 ^ 52"
proof -
  have e: "(5404319552844595 / 2 ^ 53 + 1 / 2 :: real) = 9907919180215091 / 2 ^ 53" by simp
  show ?thesis
    by (simp only: js_add_def e round_double_values)
qed

lemma crouch_down: "js_sub (4953959590107546 / 2 ^ 52) (1 / 2) = 5404319552844596 / 2 ^ 53"
proof -
  have e: "(4953959590107546 / 2 ^ 52 - 1 / 2 :: real) = 2702159776422298 / 2 ^ 52" by simp
  show ?thesis
    by (simp only: js_sub_def e round_double_values)
qed

text \<open>
  C10, as stated, fails in doubles: the crouching player at \<open>0.6\<close> stands up to \<open>1.1\<close>,
  where the sum is rounded, and crouches again to \<open>5404319552844596 / 2\<^sup>5\<^sup>3\<close>, the
  double that prints as \<open>0.6000000000000001\<close>, one unit in the last place above the
  height before the two calls.
\<close>

theorem toggleCrouch_twice_rounding_counterexample:
  "isCrouching crouched_airborne \<and>
   finite_double (v3y (controls_position crouched_airborne)) \<and>
   v3y (controls_position crouched_airborne) = 5404319552844595 / 2 ^ 53 \<and>
   v3y (controls_position (Player_toggleCrouch crouched_airborne)) =
     4953959590107546 / 2 ^ 52 \<and>
   v3y (controls_position (Player_toggleCrouch (Player_toggleCrouch crouched_airborne))) =
     5404319552844596 / 2 ^ 53 \<and>
   v3y (controls_position (Player_toggleCrouch (Player_toggleCrouch crouched_airborne))) \<noteq>
     v3y (controls_position crouched_airborne)"
proof -
  have y0: "v3y (controls_position crouched_airborne) = 5404319552844595 / 2 ^ 53"
    by (rule crouched_airborne_simps)
  have y1: "v3y (controls_position (Player_toggleCrouch crouched_airborne)) =
              4953959590107546 / 2 ^ 52"
    by (simp only: toggleCrouch_y crouched_airborne_simps if_True crouch_offset crouch_up)
  have y2: "v3y (controls_position (Player_toggleCrouch (Player_toggleCrouch crouched_airborne))) =
              5404319552844596 / 2 ^ 53"
    by (simp only: toggleCrouch_y toggleCrouch_fields crouched_airborne_simps
        not_True_eq_False if_True if_False crouch_offset crouch_up crouch_down)
  have f: "finite_double (v3y (controls_position crouched_airborne))"
    unfolding finite_double_def y0 using round_double_values(5) by simp
  have ne: "(5404319552844596 / 2 ^ 53 :: real) \<noteq> 5404319552844595 / 2 ^ 53"
    by simp
  have c: "isCrouching crouched_airborne"
    by (simp add: crouched_airborne_simps)
  have "v3y (controls_position (Player_toggleCrouch (Player_toggleCrouch crouched_airborne))) \<noteq>
     v3y (controls_position crouched_airborne)"
    unfolding y2 y0 by (rule ne)
  with c f y0 y1 y2 show ?thesis by blast
qed

text \<open>
  C10, amended: \<^verbatim>\<open>toggleCrouch\<close> called twice restores the crouching flag. It restores
  the vertical position, and with it the whole player, when the position before the calls
  is a finite double, the height difference does not overflow, and the position of the
  first call is computed without rounding, that is, when \<open>crouch_first_sum\<close> is itself a
  finite double.
\<close>

theorem toggleCrouch_twice_exact:
  "isCrouching (Player_toggleCrouch (Player_toggleCrouch p)) = isCrouching p \<and>
   (finite_double (v3y (controls_position p)) \<and>
    \<bar>js_sub (standingHeight p) (crouchingHeight p)\<bar> < 2 powi 1024 \<and>
    finite_double (crouch_first_sum p) \<longrightarrow>
      v3y (controls_position (Player_toggleCrouch (Player_toggleCrouch p))) =
        v3y (controls_position p) \<and>
      Player_toggleCrouch (Player_toggleCrouch p) = p)"
proof (intro conjI impI)
  show "isCrouching (Player_toggleCrouch (Player_toggleCrouch p)) = isCrouching p"
    by (simp add: toggleCrouch_fields)
next
  assume a: "finite_double (v3y (controls_position p)) \<and>
    \<bar>js_sub (standingHeight p) (crouchingHeight p)\<bar> < 2 powi 1024 \<and>
    finite_double (crouch_first_sum p)"
  let ?y = "v3y (controls_position p)"
  let ?h = "js_div (js_sub (standingHeight p) (crouchingHeight p)) 2"
  have y: "round_double ?y = ?y" using a by (simp add: finite_double_def)
  have s: "round_double (crouch_first_sum p) = crouch_first_sum p"
    using a by (simp add: finite_double_def)
  show eq: "Player_toggleCrouch (Player_toggleCrouch p) = p"
  proof (cases "isCrouching p")
    case True
    then have "round_double (?y + ?h) = ?y + ?h"
      using s by (simp add: crouch_first_sum_def Let_def)
    then show ?thesis
      using True y by (simp add: Player_toggleCrouch_def Let_def js_add_def js_sub_def)
  next
    case False
    then have "round_double (?y - ?h) = ?y - ?h"
      using s by (simp add: crouch_first_sum_def Let_def)
    then show ?thesis
      using False y by (simp add: Player_toggleCrouch_def Let_def js_add_def js_sub_def)
  qed
  show "v3y (controls_position (Player_toggleCrouch (Player_toggleCrouch p))) =
        v3y (controls_position p)"
    by (simp add: eq)
qed

text \<open>
  The new player, standing at height 2: the first call gives \<open>2 - 0.5 = 1.5\<close> without
  rounding, the second call gives 2 again.
\<close>

theorem toggleCrouch_twice_exact_witness:
  "finite_double (v3y (controls_position (Player_new level_camera))) \<and>
   \<bar>js_sub (standingHeight (Player_new level_camera))
      (crouchingHeight (Player_new level_camera))\<bar> < 2 powi 1024 \<and>
   finite_double (crouch_first_sum (Player_new level_camera)) \<and>
   crouch_first_sum (Player_new level_camera) = 3 / 2 \<and>
   v3y (controls_position (Player_toggleCrouch (Player_toggleCrouch (Player_new level_camera)))) =
     2 \<and>
   Player_toggleCrouch (Player_toggleCrouch (Player_new level_camera)) = Player_new level_camera"
proof -
  have v: "v3y (controls_position (Player_new level_camera)) = 2"
    "standingHeight (Player_new level_camera) = 2"
    "crouchingHeight (Player_new level_camera) = 1"
    "isCrouching (Player_new level_camera) = False"
    by (simp_all add: Player_new_def vec3_def)
  have e: "(2 - 1 / 2 :: real) = 3 / 2" by simp
  have c: "crouch_first_sum (Player_new level_camera) = 3 / 2"
    by (simp only: crouch_first_sum_def Let_def v if_False crouch_offset e)
  have a: "finite_double (v3y (controls_position (Player_new level_camera)))"
    unfolding finite_double_def v using round_double_values(4) by simp
  have s: "js_sub 2 1 = 1"
  proof -
    have "(2 - 1 :: real) = 1" by simp
    then show ?thesis by (simp only: js_sub_def round_double_values)
  qed
  have b: "\<bar>js_sub (standingHeight (Player_new level_camera))
      (crouchingHeight (Player_new level_camera))\<bar> < 2 powi 1024"
    unfolding v s by simp
  have d: "finite_double (crouch_first_sum (Player_new level_camera))"
    unfolding finite_double_def c using round_double_values(3) by simp
  have t: "v3y (controls_position (Player_toggleCrouch (Player_toggleCrouch
               (Player_new level_camera)))) =
             v3y (controls_position (Player_new level_camera)) \<and>
           Player_toggleCrouch (Player_toggleCrouch (Player_new level_camera)) =
             Player_new level_camera"
    using toggleCrouch_twice_exact [of "Player_new level_camera"] a b d by blast
  then have t1: "v3y (controls_position (Player_toggleCrouch (Player_toggleCrouch
               (Player_new level_camera)))) = 2"
    unfolding v by (rule conjunct1)
  from a b c d t t1 show ?thesis by blast
qed

end
